theory Spec2Isabelle
  imports Complex_Main
begin

section \<open>The interactive map widget of \<^verbatim>\<open>src/components/map.tsx\<close>\<close>

text \<open>
  The widget is one React component, \<^verbatim>\<open>Map\<close>, holding nine \<^verbatim>\<open>useState\<close> cells,
  and two module-level helpers, \<^verbatim>\<open>createAddressLink\<close> and \<^verbatim>\<open>getAddress\<close>.
  The cells become one record, each handler a function from the record to the updated
  record, and the two asynchronous handlers return how they settled and which requests
  they sent as well.

  Conventions of the model.
  \<^item> A JavaScript number that is a coordinate is a \<^typ>\<open>real\<close>: the code stores, compares
    and prints coordinates and computes nothing with them. The printing of a number in a
    template literal is the language's own conversion and is a parameter, \<open>toString\<close>.
  \<^item> A pin's id is the integer \<^verbatim>\<open>Date.now()\<close> returned; the clock is a parameter.
  \<^item> A JavaScript string is a \<^typ>\<open>string\<close>, one character for each code unit in the
    range U+0000 to U+00FF.
  \<^item> \<^verbatim>\<open>fetch\<close> is a parameter from the requested URL to its settlement: a rejection,
    or a response whose \<^verbatim>\<open>json()\<close> rejects or yields the parsed body. The parsed
    body is any JSON value: the code declares no type for it, and reads its property
    \<^verbatim>\<open>display_name\<close>.
  \<^item> \<^verbatim>\<open>window.confirm\<close> is a parameter of \<^verbatim>\<open>deletePin\<close>: what the user answered.
\<close>

subsection \<open>Data\<close>

datatype PinCategory = restaurant | bar | beach | travel | activity

type_synonym number = real

record Pin =
  id_pin :: int
  lat :: number
  lng :: number
  title :: string
  description :: string
  category :: PinCategory
  address :: "string option"

record map_state =
  pins :: "Pin list"
  showModal :: bool
  pendingPin :: "(number \<times> number) option"
  pinTitle :: string
  pinDescription :: string
  pinCategory :: PinCategory
  isLoadingAddress :: bool
  editingPin :: "Pin option"
  showEditModal :: bool

text \<open>The initial values of the \<^verbatim>\<open>useState\<close> cells.\<close>

definition initial_state :: map_state where
  "initial_state =
     \<lparr>pins = [], showModal = False, pendingPin = None, pinTitle = [],
      pinDescription = [], pinCategory = restaurant, isLoadingAddress = False,
      editingPin = None, showEditModal = False\<rparr>"

subsection \<open>The string operations of the language that the code calls\<close>

text \<open>
  \<^verbatim>\<open>String.prototype.trim\<close> removes white space and line terminators from both ends;
  below U+0100 these are TAB, LF, VT, FF, CR, SP and NBSP.
\<close>

definition isWhiteSpace :: "char \<Rightarrow> bool" where
  "isWhiteSpace c \<longleftrightarrow>
     c \<in> set [CHR 0x09, CHR 0x0A, CHR 0x0B, CHR 0x0C, CHR 0x0D, CHR 0x20, CHR 0xA0]"

definition trim :: "string \<Rightarrow> string" where
  "trim s = rev (dropWhile isWhiteSpace (rev (dropWhile isWhiteSpace s)))"

text \<open>
  \<^verbatim>\<open>s.split(sep)\<close> for a separator of one character: the pieces between the
  separators, so one piece more than there are separators, the empty string giving one
  empty piece.
\<close>

fun split :: "char \<Rightarrow> string \<Rightarrow> string list" where
  "split sep [] = [[]]"
| "split sep (c # cs) =
     (if c = sep then [] # split sep cs
      else (case split sep cs of
              [] \<Rightarrow> [[c]]
            | p # ps \<Rightarrow> (c # p) # ps))"

text \<open>\<^verbatim>\<open>xs.slice(b, e)\<close> for indices \<open>0 \<le> b \<le> e\<close>.\<close>

definition slice :: "nat \<Rightarrow> nat \<Rightarrow> 'a list \<Rightarrow> 'a list" where
  "slice b e xs = take (e - b) (drop b xs)"

text \<open>\<^verbatim>\<open>xs.join(sep)\<close> on an array of strings.\<close>

fun join :: "string \<Rightarrow> string list \<Rightarrow> string" where
  "join sep [] = []"
| "join sep [x] = x"
| "join sep (x # y # ys) = x @ sep @ join sep (y # ys)"

subsection \<open>The network\<close>

text \<open>
  \<^verbatim>\<open>fetch\<close> rejects with a \<^verbatim>\<open>TypeError\<close> when the request cannot be made or
  answered; it resolves on every HTTP status. \<^verbatim>\<open>response.json()\<close> rejects with a
  \<^verbatim>\<open>SyntaxError\<close> when the body is not JSON.
\<close>

text \<open>
  Two more steps of \<^verbatim>\<open>getAddress\<close> throw a \<^verbatim>\<open>TypeError\<close>, which rejects its
  promise: reading a property of \<^verbatim>\<open>null\<close>, and calling \<^verbatim>\<open>split\<close> on a value that
  has no such method.
\<close>

datatype error = FetchFailed | BodyNotJson | PropertyOfNull | SplitNotAFunction

text \<open>
  What \<^verbatim>\<open>response.json()\<close> yields: a JSON value, the members of an object in the
  order of the text. \<^verbatim>\<open>JNumber\<close> carries the parsed number.
\<close>

datatype json_value =
    JNull
  | JBool bool
  | JNumber number
  | JString string
  | JArray "json_value list"
  | JObject "(string \<times> json_value) list"

record response =
  status :: nat
  json :: "error + json_value"

type_synonym fetch = "string \<Rightarrow> error + response"

text \<open>
  \<^verbatim>\<open>data.key\<close> on a parsed body: a \<^verbatim>\<open>TypeError\<close> on \<^verbatim>\<open>null\<close>; on an object the
  member of that name, the last one when the text repeats the name, and
  \<^verbatim>\<open>undefined\<close> (here \<open>None\<close>) when there is none; \<^verbatim>\<open>undefined\<close> on a boolean, a
  number, a string and an array, for a name such as \<^verbatim>\<open>display_name\<close> that no prototype
  defines.
\<close>

fun get_property :: "json_value \<Rightarrow> string \<Rightarrow> error + json_value option" where
  "get_property JNull key = Inl PropertyOfNull"
| "get_property (JObject members) key = Inr (map_of (rev members) key)"
| "get_property (JBool b) key = Inr None"
| "get_property (JNumber n) key = Inr None"
| "get_property (JString s) key = Inr None"
| "get_property (JArray xs) key = Inr None"

text \<open>
  The truth value of a JSON value: \<^verbatim>\<open>null\<close>, \<^verbatim>\<open>false\<close>, zero and the empty string
  are falsy, everything else is truthy, the empty array and the empty object too.
\<close>

fun truthy :: "json_value \<Rightarrow> bool" where
  "truthy JNull = False"
| "truthy (JBool b) = b"
| "truthy (JNumber n) = (n \<noteq> 0)"
| "truthy (JString s) = (s \<noteq> [])"
| "truthy (JArray xs) = True"
| "truthy (JObject members) = True"

text \<open>\<^verbatim>\<open>v || fallback\<close>, for \<open>v\<close> a JSON value or \<^verbatim>\<open>undefined\<close>.\<close>

definition or_else :: "json_value option \<Rightarrow> json_value \<Rightarrow> json_value" where
  "or_else v fallback =
     (case v of
        None \<Rightarrow> fallback
      | Some a \<Rightarrow> if truthy a then a else fallback)"

subsection \<open>\<^verbatim>\<open>createAddressLink\<close> and \<^verbatim>\<open>getAddress\<close>\<close>

text \<open>
  \<^verbatim>\<open>createAddressLink\<close> on a string, as its signature declares. What it does on a value
  that is not a string is written at its call in \<^verbatim>\<open>getAddress\<close>.
\<close>

definition createAddressLink :: "(number \<Rightarrow> string) \<Rightarrow> string \<Rightarrow> number \<Rightarrow> number \<Rightarrow> string" where
  \<open>createAddressLink toString = (\<lambda>address lat lng.
      let googleMapsUrl = ''https://www.google.com/maps?q='' @ toString lat @ '','' @ toString lng;
          parts = split CHR '','' address;
          shortAddress = trim (join '' '' (slice 0 2 parts))
      in ''<a href="'' @ googleMapsUrl
         @ ''" target="_blank" rel="noopener noreferrer" style="color: #007bff; text-decoration: underline;">''
         @ shortAddress @ ''</a>'')\<close>

text \<open>
  The result of \<^verbatim>\<open>getAddress\<close> is how its promise settles, together with the URLs it
  requested. The body is untyped, so \<^verbatim>\<open>address\<close> is whatever
  \<^verbatim>\<open>data.display_name || 'Address not found'\<close> yields; when that is not a string,
  \<^verbatim>\<open>address.split\<close> in \<^verbatim>\<open>createAddressLink\<close> is not a function (no JSON value is
  one) and the call throws.
\<close>

definition getAddress :: "fetch \<Rightarrow> (number \<Rightarrow> string) \<Rightarrow> number \<Rightarrow> number \<Rightarrow> (error + string) \<times> string list" where
  "getAddress fetch toString = (\<lambda>lat lng.
      let url = ''https://nominatim.openstreetmap.org/reverse?format=json&lat='' @ toString lat
                @ ''&lon='' @ toString lng
      in case fetch url of
           Inl e \<Rightarrow> (Inl e, [url])
         | Inr response \<Rightarrow>
             (case json response of
                Inl e \<Rightarrow> (Inl e, [url])
              | Inr data \<Rightarrow>
                  (case get_property data ''display_name'' of
                     Inl e \<Rightarrow> (Inl e, [url])
                   | Inr display_name \<Rightarrow>
                       (let address = or_else display_name (JString ''Address not found'')
                        in case address of
                             JString text \<Rightarrow> (Inr (createAddressLink toString text lat lng), [url])
                           | _ \<Rightarrow> (Inl SplitNotAFunction, [url])))))"

subsection \<open>The handlers of the component\<close>

text \<open>
  What a run of an asynchronous handler leaves behind: how its promise settled, the
  state after the updates it made, and the requests it sent. A state update made before
  a rejection stays made.
\<close>

record run =
  outcome :: "error + unit"
  final :: map_state
  requests :: "string list"

definition handleMapClick :: "number \<Rightarrow> number \<Rightarrow> map_state \<Rightarrow> map_state" where
  "handleMapClick = (\<lambda>lat lng s.
     s\<lparr>pendingPin := Some (lat, lng), showModal := True, pinTitle := [],
       pinDescription := [], pinCategory := restaurant\<rparr>)"

definition addPin :: "fetch \<Rightarrow> (number \<Rightarrow> string) \<Rightarrow> int \<Rightarrow> map_state \<Rightarrow> run" where
  "addPin fetch toString now s =
     (case pendingPin s of
        None \<Rightarrow> \<lparr>outcome = Inr (), final = s, requests = []\<rparr>
      | Some (plat, plng) \<Rightarrow>
          if trim (pinTitle s) = [] then \<lparr>outcome = Inr (), final = s, requests = []\<rparr>
          else
            (let s1 = s\<lparr>isLoadingAddress := True\<rparr>
             in case getAddress fetch toString plat plng of
                  (Inl e, sent) \<Rightarrow> \<lparr>outcome = Inl e, final = s1, requests = sent\<rparr>
                | (Inr resolved, sent) \<Rightarrow>
                    (let newPin = \<lparr>id_pin = now, lat = plat, lng = plng,
                                   title = trim (pinTitle s),
                                   description = trim (pinDescription s),
                                   category = pinCategory s,
                                   address = Some resolved\<rparr>
                     in \<lparr>outcome = Inr (),
                         final = s1\<lparr>pins := pins s @ [newPin], showModal := False,
                                    pendingPin := None, pinTitle := [],
                                    pinDescription := [], pinCategory := restaurant,
                                    isLoadingAddress := False\<rparr>,
                         requests = sent\<rparr>)))"

definition cancelPin :: "map_state \<Rightarrow> map_state" where
  "cancelPin s =
     s\<lparr>showModal := False, pendingPin := None, pinTitle := [], pinDescription := [],
       pinCategory := restaurant, isLoadingAddress := False\<rparr>"

definition deletePin :: "int \<Rightarrow> bool \<Rightarrow> map_state \<Rightarrow> map_state" where
  "deletePin pinId confirmed s =
     (if confirmed then s\<lparr>pins := filter (\<lambda>pin. id_pin pin \<noteq> pinId) (pins s)\<rparr> else s)"

definition editPin :: "Pin \<Rightarrow> map_state \<Rightarrow> map_state" where
  "editPin pin s =
     s\<lparr>editingPin := Some pin, pinTitle := title pin, pinDescription := description pin,
       pinCategory := category pin, showEditModal := True\<rparr>"

definition updatePin :: "map_state \<Rightarrow> run" where
  "updatePin s =
     (case editingPin s of
        None \<Rightarrow> \<lparr>outcome = Inr (), final = s, requests = []\<rparr>
      | Some editing \<Rightarrow>
          if trim (pinTitle s) = [] then \<lparr>outcome = Inr (), final = s, requests = []\<rparr>
          else
            (let s1 = s\<lparr>isLoadingAddress := True\<rparr>;
                 updatedPin = editing\<lparr>title := trim (pinTitle s),
                                      description := trim (pinDescription s),
                                      category := pinCategory s\<rparr>
             in \<lparr>outcome = Inr (),
                 final = s1\<lparr>pins := map (\<lambda>pin. if id_pin pin = id_pin editing then updatedPin else pin) (pins s),
                            showEditModal := False, editingPin := None, pinTitle := [],
                            pinDescription := [], pinCategory := restaurant,
                            isLoadingAddress := False\<rparr>,
                 requests = []\<rparr>))"

definition cancelEdit :: "map_state \<Rightarrow> map_state" where
  "cancelEdit s =
     s\<lparr>showEditModal := False, editingPin := None, pinTitle := [], pinDescription := [],
       pinCategory := restaurant, isLoadingAddress := False\<rparr>"

text \<open>
  The \<^verbatim>\<open>disabled\<close> attributes of the buttons of the two modals: both Cancel buttons
  carry \<^verbatim>\<open>isLoadingAddress\<close>, both submit buttons
  \<^verbatim>\<open>!pinTitle.trim() || isLoadingAddress\<close>.
\<close>

definition cancel_disabled :: "map_state \<Rightarrow> bool" where
  "cancel_disabled s \<longleftrightarrow> isLoadingAddress s"

definition submit_disabled :: "map_state \<Rightarrow> bool" where
  "submit_disabled s \<longleftrightarrow> trim (pinTitle s) = [] \<or> isLoadingAddress s"

subsection \<open>Names for the statements\<close>

text \<open>The URL that \<^verbatim>\<open>getAddress\<close> requests for a coordinate pair.\<close>

abbreviation reverse_url :: "(number \<Rightarrow> string) \<Rightarrow> number \<Rightarrow> number \<Rightarrow> string" where
  "reverse_url toString x y \<equiv>
     ''https://nominatim.openstreetmap.org/reverse?format=json&lat='' @ toString x
     @ ''&lon='' @ toString y"

text \<open>
  An environment for the examples: the number conversion of the language at the three
  numbers the examples print, and a network that settles every request the same way.
\<close>

definition toString_table :: "number \<Rightarrow> string" where
  "toString_table x = (if x = 43.5 then ''43.5'' else if x = -79.25 then ''-79.25'' else ''0'')"

definition fetch_always :: "error + response \<Rightarrow> fetch" where
  "fetch_always settled = (\<lambda>url. settled)"

text \<open>Two pins and a store holding them, for the examples.\<close>

definition cafe :: Pin where
  "cafe = \<lparr>id_pin = 1, lat = 43.5, lng = -79.25, title = ''Cafe'', description = [],
            category = restaurant, address = None\<rparr>"

definition pier :: Pin where
  "pier = \<lparr>id_pin = 2, lat = 0, lng = 0, title = ''Pier'', description = ''windy'',
            category = beach, address = None\<rparr>"

definition two_pins :: map_state where
  "two_pins = initial_state\<lparr>pins := [cafe, pier]\<rparr>"

subsection \<open>The wiring of the rendered controls\<close>

text \<open>
  What the user can do, as the JSX wires it: a click on the map, the Edit and Delete
  buttons of the popup of a stored pin (Delete with the answer to the confirmation
  prompt), and, while a modal is rendered, its three fields and its two buttons. A
  button that is not rendered or is disabled runs no handler. \<^verbatim>\<open>CreateClick\<close> carries
  what \<^verbatim>\<open>Date.now()\<close> returns in that run; the step of an asynchronous handler is the
  state it leaves behind.
\<close>

datatype event =
    MapClick number number
  | EditClick Pin
  | DeleteClick int bool
  | CategoryChange PinCategory
  | TitleChange string
  | DescriptionChange string
  | CancelCreateClick
  | CreateClick int
  | CancelEditClick
  | UpdateClick

fun ui_step :: "fetch \<Rightarrow> (number \<Rightarrow> string) \<Rightarrow> map_state \<Rightarrow> event \<Rightarrow> map_state" where
  "ui_step fetch toString s (MapClick x y) = handleMapClick x y s"
| "ui_step fetch toString s (EditClick pin) =
     (if pin \<in> set (pins s) then editPin pin s else s)"
| "ui_step fetch toString s (DeleteClick pinId confirmed) =
     (if pinId \<in> id_pin ` set (pins s) then deletePin pinId confirmed s else s)"
| "ui_step fetch toString s (CategoryChange c) =
     (if showModal s \<or> showEditModal s then s\<lparr>pinCategory := c\<rparr> else s)"
| "ui_step fetch toString s (TitleChange t) =
     (if showModal s \<or> showEditModal s then s\<lparr>pinTitle := t\<rparr> else s)"
| "ui_step fetch toString s (DescriptionChange d) =
     (if showModal s \<or> showEditModal s then s\<lparr>pinDescription := d\<rparr> else s)"
| "ui_step fetch toString s CancelCreateClick =
     (if showModal s \<and> \<not> cancel_disabled s then cancelPin s else s)"
| "ui_step fetch toString s (CreateClick now) =
     (if showModal s \<and> \<not> submit_disabled s then final (addPin fetch toString now s) else s)"
| "ui_step fetch toString s CancelEditClick =
     (if showEditModal s \<and> \<not> cancel_disabled s then cancelEdit s else s)"
| "ui_step fetch toString s UpdateClick =
     (if showEditModal s \<and> \<not> submit_disabled s then final (updatePin s) else s)"

section \<open>Properties of the helpers and handlers\<close>

lemma trim_Nil_iff: "trim s = [] \<longleftrightarrow> (\<forall>c \<in> set s. isWhiteSpace c)"
proof
  assume "trim s = []"
  then have all: "\<forall>c \<in> set (dropWhile isWhiteSpace s). isWhiteSpace c"
    by (simp add: trim_def dropWhile_eq_Nil_conv)
  have "dropWhile isWhiteSpace s = []"
  proof (rule ccontr)
    assume n: "dropWhile isWhiteSpace s \<noteq> []"
    then have "\<not> isWhiteSpace (hd (dropWhile isWhiteSpace s))" by (rule hd_dropWhile)
    moreover have "hd (dropWhile isWhiteSpace s) \<in> set (dropWhile isWhiteSpace s)"
      using n by (rule hd_in_set)
    ultimately show False using all by blast
  qed
  then show "\<forall>c \<in> set s. isWhiteSpace c" by (simp only: dropWhile_eq_Nil_conv)
next
  assume "\<forall>c \<in> set s. isWhiteSpace c"
  then have d: "dropWhile isWhiteSpace s = []" by (simp only: dropWhile_eq_Nil_conv)
  show "trim s = []" unfolding trim_def d by simp
qed

lemma createAddressLink_shape:
  \<open>createAddressLink toString a x y =
     ''<a href="https://www.google.com/maps?q='' @ toString x @ '','' @ toString y
     @ ''" target="_blank" rel="noopener noreferrer" style="color: #007bff; text-decoration: underline;">''
     @ trim (join '' '' (take 2 (split CHR '','' a))) @ ''</a>''\<close>
  by (simp add: createAddressLink_def slice_def)

text \<open>
  How \<^verbatim>\<open>getAddress\<close> settles. It is fulfilled exactly when the request is answered,
  the body is JSON and not \<^verbatim>\<open>null\<close>, and
  \<^verbatim>\<open>data.display_name || 'Address not found'\<close> is a string: when the property is
  absent or falsy (the fallback) or is a string that is not empty.
\<close>

lemma getAddress_requests:
  "snd (getAddress fetch toString x y) = [reverse_url toString x y]"
  by (simp add: getAddress_def Let_def split: sum.splits json_value.splits)

lemma getAddress_fulfilled:
  assumes "fetch (reverse_url toString x y) = Inr r" and "json r = Inr data"
    and "get_property data ''display_name'' = Inr v"
    and "or_else v (JString ''Address not found'') = JString a"
  shows "getAddress fetch toString x y
         = (Inr (createAddressLink toString a x y), [reverse_url toString x y])"
  using assms by (simp add: getAddress_def Let_def)

lemma getAddress_rejected_null:
  assumes "fetch (reverse_url toString x y) = Inr r" and "json r = Inr JNull"
  shows "getAddress fetch toString x y = (Inl PropertyOfNull, [reverse_url toString x y])"
  using assms by (simp add: getAddress_def Let_def)

lemma getAddress_rejected_not_a_string:
  assumes "fetch (reverse_url toString x y) = Inr r" and "json r = Inr data"
    and "get_property data ''display_name'' = Inr v"
    and "\<forall>a. or_else v (JString ''Address not found'') \<noteq> JString a"
  shows "getAddress fetch toString x y = (Inl SplitNotAFunction, [reverse_url toString x y])"
  using assms by (simp add: getAddress_def Let_def split: json_value.splits)

lemma getAddress_rejected_number_display_name:
  "getAddress
     (fetch_always (Inr \<lparr>status = 200, json = Inr (JObject [(''display_name'', JNumber 42)])\<rparr>))
     toString_table 43.5 (-79.25)
   = (Inl SplitNotAFunction, [reverse_url toString_table 43.5 (-79.25)])"
  by (simp add: getAddress_def Let_def or_else_def fetch_always_def)

lemma or_else_string_iff:
  "or_else v (JString fallback) = JString a \<longleftrightarrow>
     (case v of
        None \<Rightarrow> a = fallback
      | Some (JString n) \<Rightarrow> a = (if n = [] then fallback else n)
      | Some other \<Rightarrow> \<not> truthy other \<and> a = fallback)"
  by (auto simp add: or_else_def split: option.splits json_value.splits)

lemma addPin_resolved:
  assumes "pendingPin s = Some (x, y)" and "trim (pinTitle s) \<noteq> []"
    and "fetch (reverse_url toString x y) = Inr r" and "json r = Inr data"
    and "get_property data ''display_name'' = Inr v"
    and "or_else v (JString ''Address not found'') = JString a"
  shows "addPin fetch toString now s =
      \<lparr>outcome = Inr (),
       final = s\<lparr>pins := pins s @
                   [\<lparr>id_pin = now, lat = x, lng = y, title = trim (pinTitle s),
                     description = trim (pinDescription s), category = pinCategory s,
                     address = Some (createAddressLink toString a x y)\<rparr>],
                 showModal := False, pendingPin := None, pinTitle := [],
                 pinDescription := [], pinCategory := restaurant,
                 isLoadingAddress := False\<rparr>,
       requests = [reverse_url toString x y]\<rparr>"
proof -
  have "getAddress fetch toString x y
        = (Inr (createAddressLink toString a x y), [reverse_url toString x y])"
    using assms(3-6) by (rule getAddress_fulfilled)
  with assms(1,2) show ?thesis by (simp add: addPin_def)
qed

lemma addPin_rejected:
  assumes "pendingPin s = Some (x, y)" and "trim (pinTitle s) \<noteq> []"
    and "fst (getAddress fetch toString x y) = Inl e"
  shows "addPin fetch toString now s =
      \<lparr>outcome = Inl e, final = s\<lparr>isLoadingAddress := True\<rparr>,
       requests = [reverse_url toString x y]\<rparr>"
proof -
  have "getAddress fetch toString x y = (Inl e, [reverse_url toString x y])"
    using assms(3) getAddress_requests [of fetch toString x y]
    by (cases "getAddress fetch toString x y") simp
  with assms(1,2) show ?thesis by (simp add: addPin_def)
qed

lemma addPin_inert:
  assumes "pendingPin s = None \<or> trim (pinTitle s) = []"
  shows "addPin fetch toString now s = \<lparr>outcome = Inr (), final = s, requests = []\<rparr>"
  using assms by (auto simp add: addPin_def split: option.splits)

lemma updatePin_inert:
  assumes "editingPin s = None \<or> trim (pinTitle s) = []"
  shows "updatePin s = \<lparr>outcome = Inr (), final = s, requests = []\<rparr>"
  using assms by (auto simp add: updatePin_def split: option.splits)

lemma updatePin_pins:
  assumes "editingPin s = Some e" and "trim (pinTitle s) \<noteq> []"
  shows "pins (final (updatePin s)) =
     map (\<lambda>pin. if id_pin pin = id_pin e
                then e\<lparr>title := trim (pinTitle s), description := trim (pinDescription s),
                        category := pinCategory s\<rparr>
                else pin) (pins s)"
  using assms by (simp add: updatePin_def)

section \<open>The claims\<close>

subsection \<open>Deleting a pin\<close>

lemma filter_other_ids_remove1:
  "distinct (map f xs) \<Longrightarrow> p \<in> set xs \<Longrightarrow> filter (\<lambda>q. f q \<noteq> f p) xs = remove1 p xs"
proof (induction xs)
  case Nil
  then show ?case by simp
next
  case (Cons a xs)
  show ?case
  proof (cases "a = p")
    case True
    with Cons.prems have "f p \<notin> f ` set xs" by simp
    then have "\<forall>q \<in> set xs. f q \<noteq> f p" by (metis imageI)
    then have "filter (\<lambda>q. f q \<noteq> f p) xs = xs" by (simp add: filter_id_conv)
    with True show ?thesis by simp
  next
    case False
    with Cons.prems have "p \<in> set xs" and "distinct (map f xs)" and "f a \<notin> f ` set xs" by auto
    then have "f a \<noteq> f p" by auto
    with Cons.IH \<open>p \<in> set xs\<close> \<open>distinct (map f xs)\<close> False show ?thesis by simp
  qed
qed

text \<open>
  Claim C6. In a store whose pin ids are pairwise different, a confirmed deletion by the
  id of a stored pin removes that pin and nothing else, and leaves every other cell of
  the state as it was; a confirmed deletion by an id that no stored pin has leaves the
  state unchanged.
\<close>

theorem C6_deletePin_removes_exactly_that_pin:
  "(distinct (map id_pin (pins s)) \<and> p \<in> set (pins s) \<longrightarrow>
      deletePin (id_pin p) True s = s\<lparr>pins := remove1 p (pins s)\<rparr>)
   \<and> (pinId \<notin> id_pin ` set (pins s) \<longrightarrow> deletePin pinId True s = s)"
proof (intro conjI impI)
  assume "distinct (map id_pin (pins s)) \<and> p \<in> set (pins s)"
  then show "deletePin (id_pin p) True s = s\<lparr>pins := remove1 p (pins s)\<rparr>"
    by (simp add: deletePin_def filter_other_ids_remove1)
next
  assume "pinId \<notin> id_pin ` set (pins s)"
  then have "\<forall>pin \<in> set (pins s). id_pin pin \<noteq> pinId" by (metis imageI)
  then have "filter (\<lambda>pin. id_pin pin \<noteq> pinId) (pins s) = pins s"
    by (simp add: filter_id_conv)
  then show "deletePin pinId True s = s" by (simp add: deletePin_def)
qed

theorem C6_deletePin_witness:
  "distinct (map id_pin (pins two_pins)) \<and> cafe \<in> set (pins two_pins)
   \<and> 7 \<notin> id_pin ` set (pins two_pins)
   \<and> pins (deletePin (id_pin cafe) True two_pins) = [pier]
   \<and> deletePin 7 True two_pins = two_pins"
  using C6_deletePin_removes_exactly_that_pin [of two_pins cafe 7]
  by (simp add: two_pins_def cafe_def pier_def initial_state_def)


subsection \<open>Submitting with a blank title\<close>

text \<open>
  Claim C4. In every state, when the title holds nothing but white space (the empty
  title included), submitting the create form and submitting the edit form both leave
  the whole state, and so the store, as it was, and neither sends a request.
\<close>

theorem C4_blank_title_is_inert:
  assumes "\<forall>c \<in> set (pinTitle s). isWhiteSpace c"
  shows "final (addPin fetch toString now s) = s
       \<and> requests (addPin fetch toString now s) = []
       \<and> final (updatePin s) = s
       \<and> requests (updatePin s) = []"
proof -
  from assms have "trim (pinTitle s) = []" by (simp only: trim_Nil_iff)
  then show ?thesis by (simp add: addPin_inert updatePin_inert)
qed

theorem C4_blank_title_witness:
  "list_all isWhiteSpace
     (pinTitle (two_pins\<lparr>pendingPin := Some (10, 20), editingPin := Some cafe,
                          pinTitle := [CHR '' '', CHR 0x09]\<rparr>))
   \<and> pins (final (addPin (fetch_always (Inl FetchFailed)) toString_table 3
              (two_pins\<lparr>pendingPin := Some (10, 20), editingPin := Some cafe,
                         pinTitle := [CHR '' '', CHR 0x09]\<rparr>))) = [cafe, pier]
   \<and> requests (addPin (fetch_always (Inl FetchFailed)) toString_table 3
              (two_pins\<lparr>pendingPin := Some (10, 20), editingPin := Some cafe,
                         pinTitle := [CHR '' '', CHR 0x09]\<rparr>)) = []
   \<and> pins (final (updatePin
              (two_pins\<lparr>pendingPin := Some (10, 20), editingPin := Some cafe,
                         pinTitle := [CHR '' '', CHR 0x09]\<rparr>))) = [cafe, pier]"
  using C4_blank_title_is_inert
          [of "two_pins\<lparr>pendingPin := Some (10, 20), editingPin := Some cafe,
                         pinTitle := [CHR '' '', CHR 0x09]\<rparr>"
              "fetch_always (Inl FetchFailed)" toString_table 3]
  by (simp add: two_pins_def initial_state_def isWhiteSpace_def)

subsection \<open>Editing a pin\<close>

text \<open>
  Claim C5. When the pin under edit is the pin at some position of the store, submitting
  the edit form leaves at that position a pin with the same id, latitude, longitude and
  address; when the trimmed title is not empty it is the old pin with its title,
  description and category replaced by the trimmed title, the trimmed description and
  the category of the form.
\<close>

theorem C5_edit_changes_only_title_description_category:
  assumes "editingPin s = Some p" and "i < length (pins s)" and "pins s ! i = p"
  shows "let q = pins (final (updatePin s)) ! i
         in id_pin q = id_pin p \<and> lat q = lat p \<and> lng q = lng p \<and> address q = address p
            \<and> (trim (pinTitle s) \<noteq> [] \<longrightarrow>
                 q = p\<lparr>title := trim (pinTitle s), description := trim (pinDescription s),
                       category := pinCategory s\<rparr>)"
proof (cases "trim (pinTitle s) = []")
  case True
  with assms(3) show ?thesis by (simp add: updatePin_inert)
next
  case False
  with assms show ?thesis by (simp add: updatePin_pins)
qed

theorem C5_edit_witness:
  "editingPin ((editPin pier two_pins)
      \<lparr>pinTitle := '' Old pier'', pinDescription := ''calm '', pinCategory := travel\<rparr>)
     = Some pier
   \<and> 1 < length (pins (editPin pier two_pins))
   \<and> pins (editPin pier two_pins) ! 1 = pier
   \<and> pins (final (updatePin ((editPin pier two_pins)
              \<lparr>pinTitle := '' Old pier'', pinDescription := ''calm '', pinCategory := travel\<rparr>))) ! 1
     = \<lparr>id_pin = 2, lat = 0, lng = 0, title = ''Old pier'', description = ''calm'',
        category = travel, address = None\<rparr>"
  using C5_edit_changes_only_title_description_category
          [where s = "(editPin pier two_pins)
                        \<lparr>pinTitle := '' Old pier'', pinDescription := ''calm '',
                          pinCategory := travel\<rparr>"
             and p = pier and i = 1]
  by (simp add: Let_def editPin_def two_pins_def cafe_def pier_def initial_state_def trim_def
                isWhiteSpace_def)

text \<open>
  Claim C7. When no stored pin has the id of the pin under edit, submitting the edit
  form leaves the store as it was, and the handler's promise is fulfilled, not rejected.
\<close>

theorem C7_update_of_unknown_id_is_noop:
  assumes "editingPin s = Some e" and "id_pin e \<notin> id_pin ` set (pins s)"
  shows "pins (final (updatePin s)) = pins s \<and> outcome (updatePin s) = Inr ()"
proof (cases "trim (pinTitle s) = []")
  case True
  then show ?thesis by (simp add: updatePin_inert)
next
  case False
  from assms(2) have "\<forall>pin \<in> set (pins s). id_pin pin \<noteq> id_pin e" by (metis imageI)
  then have "map (\<lambda>pin. if id_pin pin = id_pin e
                         then e\<lparr>title := trim (pinTitle s),
                                 description := trim (pinDescription s),
                                 category := pinCategory s\<rparr>
                         else pin) (pins s) = pins s"
    by (simp add: map_idI)
  with assms(1) False show ?thesis by (simp add: updatePin_pins) (simp add: updatePin_def)
qed

theorem C7_update_of_unknown_id_witness:
  "editingPin (two_pins\<lparr>editingPin := Some (cafe\<lparr>id_pin := 9\<rparr>), pinTitle := ''Gone''\<rparr>)
     = Some (cafe\<lparr>id_pin := 9\<rparr>)
   \<and> id_pin (cafe\<lparr>id_pin := 9\<rparr>) \<notin> id_pin ` set (pins two_pins)
   \<and> pins (final (updatePin (two_pins\<lparr>editingPin := Some (cafe\<lparr>id_pin := 9\<rparr>),
                                         pinTitle := ''Gone''\<rparr>))) = [cafe, pier]
   \<and> outcome (updatePin (two_pins\<lparr>editingPin := Some (cafe\<lparr>id_pin := 9\<rparr>),
                                    pinTitle := ''Gone''\<rparr>)) = Inr ()"
  using C7_update_of_unknown_id_is_noop
          [of "two_pins\<lparr>editingPin := Some (cafe\<lparr>id_pin := 9\<rparr>), pinTitle := ''Gone''\<rparr>"
              "cafe\<lparr>id_pin := 9\<rparr>"]
  by (simp add: two_pins_def cafe_def pier_def initial_state_def)

text \<open>
  Claim C10. Submitting the edit form keeps the length of the store and the order of its
  ids; every pin whose id differs from the id of the pin under edit stays what it was
  at its position, and every position whose pin has that id holds the updated pin.
\<close>

theorem C10_edit_preserves_length_and_order:
  assumes "editingPin s = Some e"
  shows "length (pins (final (updatePin s))) = length (pins s)
       \<and> map id_pin (pins (final (updatePin s))) = map id_pin (pins s)
       \<and> (\<forall>i < length (pins s). id_pin (pins s ! i) \<noteq> id_pin e \<longrightarrow>
             pins (final (updatePin s)) ! i = pins s ! i)
       \<and> (\<forall>i < length (pins s). id_pin (pins s ! i) = id_pin e \<and> trim (pinTitle s) \<noteq> [] \<longrightarrow>
             pins (final (updatePin s)) ! i
               = e\<lparr>title := trim (pinTitle s), description := trim (pinDescription s),
                    category := pinCategory s\<rparr>)"
proof (cases "trim (pinTitle s) = []")
  case True
  then show ?thesis by (simp add: updatePin_inert)
next
  case False
  with assms show ?thesis by (simp add: updatePin_pins)
qed

theorem C10_edit_order_witness:
  "editingPin ((editPin cafe two_pins)\<lparr>pinTitle := ''Diner''\<rparr>) = Some cafe
   \<and> pins (final (updatePin ((editPin cafe two_pins)\<lparr>pinTitle := ''Diner''\<rparr>)))
     = [cafe\<lparr>title := ''Diner''\<rparr>, pier]"
  using C10_edit_preserves_length_and_order
          [of "(editPin cafe two_pins)\<lparr>pinTitle := ''Diner''\<rparr>" cafe]
  by (simp add: two_pins_def cafe_def pier_def initial_state_def editPin_def updatePin_def
                trim_def isWhiteSpace_def)


subsection \<open>Creating a pin\<close>

text \<open>
  Claim C2, the claim as stated refuted: a description given with white space around it
  is not the description the new pin carries. After a click at (43.5, -79.25) with the
  title \<^verbatim>\<open>Cafe\<close> and the description \<^verbatim>\<open>" good coffee "\<close>, the pin stored by the
  create flow has the description \<^verbatim>\<open>"good coffee"\<close>.
\<close>

theorem C2_counterexample:
  "description (last (pins (final (addPin
       (fetch_always (Inr \<lparr>status = 200,
          json = Inr (JObject [(''display_name'', JString ''1 Bay St, Toronto'')])\<rparr>))
       toString_table 1700000000000
       ((handleMapClick 43.5 (-79.25) initial_state)
          \<lparr>pinTitle := ''Cafe'', pinDescription := '' good coffee '', pinCategory := bar\<rparr>)))))
     = ''good coffee''
   \<and> description (last (pins (final (addPin
       (fetch_always (Inr \<lparr>status = 200,
          json = Inr (JObject [(''display_name'', JString ''1 Bay St, Toronto'')])\<rparr>))
       toString_table 1700000000000
       ((handleMapClick 43.5 (-79.25) initial_state)
          \<lparr>pinTitle := ''Cafe'', pinDescription := '' good coffee '', pinCategory := bar\<rparr>)))))
     \<noteq> '' good coffee ''"
  by (simp add: addPin_def getAddress_def Let_def or_else_def handleMapClick_def
                initial_state_def fetch_always_def trim_def isWhiteSpace_def)

text \<open>
  Claim C2, as amended. For every coordinate pair with latitude in [-90, 90] and
  longitude in [-180, 180], every title whose trimmed form is not empty, every
  description and every category: when the geocoding request is answered with a JSON
  body that is not \<^verbatim>\<open>null\<close> and for which
  \<^verbatim>\<open>data.display_name || 'Address not found'\<close> is a string (the property is absent,
  falsy, or a string), submitting the create form after the click is fulfilled and
  appends exactly one pin to the store, and that pin carries the clicked coordinates, the
  trimmed title, the trimmed description, the category, and an address that is not null:
  the link made from that string.
\<close>

theorem C2_create_flow_appends_one_pin:
  assumes "- 90 \<le> x" and "x \<le> 90" and "- 180 \<le> y" and "y \<le> 180"
    and "trim t \<noteq> []"
    and "fetch (reverse_url toString x y) = Inr r" and "json r = Inr data"
    and "get_property data ''display_name'' = Inr v"
    and "or_else v (JString ''Address not found'') = JString a"
  shows "outcome (addPin fetch toString now
                 ((handleMapClick x y s)\<lparr>pinTitle := t, pinDescription := dsc, pinCategory := c\<rparr>))
          = Inr ()
       \<and> pins (final (addPin fetch toString now
                 ((handleMapClick x y s)\<lparr>pinTitle := t, pinDescription := dsc, pinCategory := c\<rparr>)))
          = pins s @ [\<lparr>id_pin = now, lat = x, lng = y, title = trim t,
                       description = trim dsc, category = c,
                       address = Some (createAddressLink toString a x y)\<rparr>]"
proof -
  let ?form = "(handleMapClick x y s)\<lparr>pinTitle := t, pinDescription := dsc, pinCategory := c\<rparr>"
  have "pendingPin ?form = Some (x, y)" by (simp add: handleMapClick_def)
  moreover have "trim (pinTitle ?form) \<noteq> []" using assms(5) by simp
  ultimately have "addPin fetch toString now ?form =
      \<lparr>outcome = Inr (),
       final = ?form\<lparr>pins := pins ?form @
                   [\<lparr>id_pin = now, lat = x, lng = y, title = trim (pinTitle ?form),
                     description = trim (pinDescription ?form), category = pinCategory ?form,
                     address = Some (createAddressLink toString a x y)\<rparr>],
                 showModal := False, pendingPin := None, pinTitle := [],
                 pinDescription := [], pinCategory := restaurant,
                 isLoadingAddress := False\<rparr>,
       requests = [reverse_url toString x y]\<rparr>"
    using assms(6-9) by (rule addPin_resolved)
  then show ?thesis by (simp add: handleMapClick_def)
qed

theorem C2_create_flow_witness:
  \<open>- 90 \<le> (43.5::real) \<and> (43.5::real) \<le> 90 \<and> - 180 \<le> (- 79.25::real) \<and> (- 79.25::real) \<le> 180
   \<and> trim ''Cafe'' \<noteq> []
   \<and> fetch_always (Inr \<lparr>status = 200,
          json = Inr (JObject [(''display_name'', JString ''1 Bay St, Toronto'')])\<rparr>)
         (reverse_url toString_table 43.5 (-79.25))
       = Inr \<lparr>status = 200,
          json = Inr (JObject [(''display_name'', JString ''1 Bay St, Toronto'')])\<rparr>
   \<and> get_property (JObject [(''display_name'', JString ''1 Bay St, Toronto'')]) ''display_name''
       = Inr (Some (JString ''1 Bay St, Toronto''))
   \<and> or_else (Some (JString ''1 Bay St, Toronto'')) (JString ''Address not found'')
       = JString ''1 Bay St, Toronto''
   \<and> pins (final (addPin
         (fetch_always (Inr \<lparr>status = 200,
            json = Inr (JObject [(''display_name'', JString ''1 Bay St, Toronto'')])\<rparr>))
         toString_table 1700000000000
         ((handleMapClick 43.5 (-79.25) two_pins)
            \<lparr>pinTitle := ''Cafe'', pinDescription := '' good coffee '', pinCategory := bar\<rparr>)))
       = [cafe, pier,
          \<lparr>id_pin = 1700000000000, lat = 43.5, lng = -79.25, title = ''Cafe'',
            description = ''good coffee'', category = bar,
            address = Some ''<a href="https://www.google.com/maps?q=43.5,-79.25" target="_blank" rel="noopener noreferrer" style="color: #007bff; text-decoration: underline;">1 Bay St  Toronto</a>''\<rparr>]\<close>
proof -
  have ws: "trim ''Cafe'' = ''Cafe''" "trim '' good coffee '' = ''good coffee''"
    by (simp_all add: trim_def isWhiteSpace_def)
  show ?thesis
    using C2_create_flow_appends_one_pin
          [where x = "43.5" and y = "-79.25" and t = "''Cafe''" and dsc = "'' good coffee ''"
             and c = bar and s = two_pins and toString = toString_table
             and fetch = "fetch_always (Inr \<lparr>status = 200,
                            json = Inr (JObject [(''display_name'', JString ''1 Bay St, Toronto'')])\<rparr>)"
             and r = "\<lparr>status = 200,
                        json = Inr (JObject [(''display_name'', JString ''1 Bay St, Toronto'')])\<rparr>"
             and data = "JObject [(''display_name'', JString ''1 Bay St, Toronto'')]"
             and v = "Some (JString ''1 Bay St, Toronto'')" and a = "''1 Bay St, Toronto''"
             and now = 1700000000000]
    by (simp add: ws or_else_def fetch_always_def two_pins_def initial_state_def
                  createAddressLink_def slice_def toString_table_def trim_def isWhiteSpace_def)
qed

text \<open>
  Claim C1, the claim as stated refuted: for the display name
  \<^verbatim>\<open>123 Main St, Springfield, Some County, Country\<close> the text of the stored anchor is
  \<^verbatim>\<open>123 Main St  Springfield\<close>, with no comma and with two spaces, and it is not
  \<^verbatim>\<open>123 Main St, Springfield\<close>.
\<close>

theorem C1_counterexample:
  \<open>address (last (pins (final (addPin
       (fetch_always (Inr \<lparr>status = 200, json = Inr (JObject [(''display_name'',
          JString ''123 Main St, Springfield, Some County, Country'')])\<rparr>))
       toString_table 1700000000000
       ((handleMapClick 43.5 (-79.25) initial_state)\<lparr>pinTitle := ''Home''\<rparr>)))))
     = Some ''<a href="https://www.google.com/maps?q=43.5,-79.25" target="_blank" rel="noopener noreferrer" style="color: #007bff; text-decoration: underline;">123 Main St  Springfield</a>''
   \<and> address (last (pins (final (addPin
       (fetch_always (Inr \<lparr>status = 200, json = Inr (JObject [(''display_name'',
          JString ''123 Main St, Springfield, Some County, Country'')])\<rparr>))
       toString_table 1700000000000
       ((handleMapClick 43.5 (-79.25) initial_state)\<lparr>pinTitle := ''Home''\<rparr>)))))
     \<noteq> Some ''<a href="https://www.google.com/maps?q=43.5,-79.25" target="_blank" rel="noopener noreferrer" style="color: #007bff; text-decoration: underline;">123 Main St, Springfield</a>''\<close>
  by (simp add: addPin_def getAddress_def Let_def createAddressLink_def or_else_def
                slice_def handleMapClick_def initial_state_def fetch_always_def
                toString_table_def trim_def isWhiteSpace_def)

text \<open>
  Claim C1, as amended. For every geocoding answer whose display name is
  \<^verbatim>\<open>123 Main St, Springfield, Some County, Country\<close>, the address stored by the create
  flow is the anchor whose text is exactly \<^verbatim>\<open>123 Main St  Springfield\<close>: the first two
  comma-separated components of the display name joined by one space, the comma dropped
  and the second component keeping its leading space, trimmed at both ends.
\<close>

theorem C1_first_two_components_joined_by_space:
  assumes "pendingPin s = Some (x, y)" and "trim (pinTitle s) \<noteq> []"
    and "fetch (reverse_url toString x y) = Inr r" and "json r = Inr data"
    and "get_property data ''display_name''
           = Inr (Some (JString ''123 Main St, Springfield, Some County, Country''))"
  shows \<open>map address (pins (final (addPin fetch toString now s)))
         = map address (pins s)
           @ [Some (''<a href="https://www.google.com/maps?q='' @ toString x @ '','' @ toString y
                    @ ''" target="_blank" rel="noopener noreferrer" style="color: #007bff; text-decoration: underline;">123 Main St  Springfield</a>'')]\<close>
proof -
  have "or_else (Some (JString ''123 Main St, Springfield, Some County, Country''))
          (JString ''Address not found'')
        = JString ''123 Main St, Springfield, Some County, Country''"
    by (simp add: or_else_def)
  with assms have run: "addPin fetch toString now s =
      \<lparr>outcome = Inr (),
       final = s\<lparr>pins := pins s @
                   [\<lparr>id_pin = now, lat = x, lng = y, title = trim (pinTitle s),
                     description = trim (pinDescription s), category = pinCategory s,
                     address = Some (createAddressLink toString
                        ''123 Main St, Springfield, Some County, Country'' x y)\<rparr>],
                 showModal := False, pendingPin := None, pinTitle := [],
                 pinDescription := [], pinCategory := restaurant,
                 isLoadingAddress := False\<rparr>,
       requests = [reverse_url toString x y]\<rparr>"
    by (rule addPin_resolved)
  have "trim (join '' '' (take 2 (split CHR '',''
                   ''123 Main St, Springfield, Some County, Country'')))
                 = ''123 Main St  Springfield''"
    by (simp add: trim_def isWhiteSpace_def)
  with run show ?thesis by (simp add: createAddressLink_shape)
qed

theorem C1_first_two_components_witness:
  \<open>pendingPin ((handleMapClick 43.5 (-79.25) two_pins)\<lparr>pinTitle := ''Home''\<rparr>) = Some (43.5, -79.25)
   \<and> trim (pinTitle ((handleMapClick 43.5 (-79.25) two_pins)\<lparr>pinTitle := ''Home''\<rparr>)) \<noteq> []
   \<and> fetch_always (Inr \<lparr>status = 200, json = Inr (JObject [(''display_name'',
          JString ''123 Main St, Springfield, Some County, Country'')])\<rparr>)
         (reverse_url toString_table 43.5 (-79.25))
       = Inr \<lparr>status = 200, json = Inr (JObject [(''display_name'',
          JString ''123 Main St, Springfield, Some County, Country'')])\<rparr>
   \<and> get_property (JObject [(''display_name'',
          JString ''123 Main St, Springfield, Some County, Country'')]) ''display_name''
       = Inr (Some (JString ''123 Main St, Springfield, Some County, Country''))
   \<and> map address (pins (final (addPin
         (fetch_always (Inr \<lparr>status = 200, json = Inr (JObject [(''display_name'',
            JString ''123 Main St, Springfield, Some County, Country'')])\<rparr>))
         toString_table 1700000000000
         ((handleMapClick 43.5 (-79.25) two_pins)\<lparr>pinTitle := ''Home''\<rparr>))))
     = [None, None,
        Some ''<a href="https://www.google.com/maps?q=43.5,-79.25" target="_blank" rel="noopener noreferrer" style="color: #007bff; text-decoration: underline;">123 Main St  Springfield</a>'']\<close>
  using C1_first_two_components_joined_by_space
          [where s = "(handleMapClick 43.5 (-79.25) two_pins)\<lparr>pinTitle := ''Home''\<rparr>"
             and x = "43.5" and y = "-79.25" and toString = toString_table
             and fetch = "fetch_always (Inr \<lparr>status = 200, json = Inr (JObject [(''display_name'',
                            JString ''123 Main St, Springfield, Some County, Country'')])\<rparr>)"
             and r = "\<lparr>status = 200, json = Inr (JObject [(''display_name'',
                        JString ''123 Main St, Springfield, Some County, Country'')])\<rparr>"
             and data = "JObject [(''display_name'',
                        JString ''123 Main St, Springfield, Some County, Country'')]"
             and now = 1700000000000]
  by (simp add: handleMapClick_def two_pins_def cafe_def pier_def initial_state_def
                fetch_always_def toString_table_def trim_def isWhiteSpace_def)

text \<open>
  A body that is not \<^verbatim>\<open>null\<close> and has no \<^verbatim>\<open>display_name\<close>: the create flow is
  fulfilled and stores the anchor whose text is \<^verbatim>\<open>Address not found\<close>.
\<close>

lemma absent_display_name_gives_fallback:
  assumes "pendingPin s = Some (x, y)" and "trim (pinTitle s) \<noteq> []"
    and "fetch (reverse_url toString x y) = Inr r" and "json r = Inr data"
    and "get_property data ''display_name'' = Inr None"
  shows \<open>outcome (addPin fetch toString now s) = Inr ()
       \<and> map address (pins (final (addPin fetch toString now s)))
         = map address (pins s)
           @ [Some (''<a href="https://www.google.com/maps?q='' @ toString x @ '','' @ toString y
                    @ ''" target="_blank" rel="noopener noreferrer" style="color: #007bff; text-decoration: underline;">Address not found</a>'')]\<close>
proof -
  have "or_else None (JString ''Address not found'') = JString ''Address not found''"
    by (simp add: or_else_def)
  with assms have run: "addPin fetch toString now s =
      \<lparr>outcome = Inr (),
       final = s\<lparr>pins := pins s @
                   [\<lparr>id_pin = now, lat = x, lng = y, title = trim (pinTitle s),
                     description = trim (pinDescription s), category = pinCategory s,
                     address = Some (createAddressLink toString ''Address not found'' x y)\<rparr>],
                 showModal := False, pendingPin := None, pinTitle := [],
                 pinDescription := [], pinCategory := restaurant,
                 isLoadingAddress := False\<rparr>,
       requests = [reverse_url toString x y]\<rparr>"
    by (rule addPin_resolved)
  have "trim (join '' '' (take 2 (split CHR '','' ''Address not found''))) = ''Address not found''"
    by (simp add: trim_def isWhiteSpace_def)
  with run show ?thesis by (simp add: createAddressLink_shape)
qed

text \<open>
  Claim C8, the code at a body without \<^verbatim>\<open>display_name\<close> on which it fails. After a
  click at (43.5, -79.25) and the title \<^verbatim>\<open>Dock\<close>, when the request is answered with
  the JSON body \<^verbatim>\<open>null\<close>, reading \<^verbatim>\<open>data.display_name\<close> throws: the promise of
  \<^verbatim>\<open>addPin\<close> is rejected, no pin and so no address is stored, and the create modal is
  left showing with the loading flag set. With the body \<^verbatim>\<open>{}\<close>, which has no
  \<^verbatim>\<open>display_name\<close> either, the same submit stores the anchor whose text is
  \<^verbatim>\<open>Address not found\<close>.
\<close>

theorem C8_null_body_rejects_create_flow:
  \<open>outcome (addPin (fetch_always (Inr \<lparr>status = 200, json = Inr JNull\<rparr>)) toString_table
             1700000000000
             ((handleMapClick 43.5 (-79.25) initial_state)\<lparr>pinTitle := ''Dock''\<rparr>))
     = Inl PropertyOfNull
   \<and> final (addPin (fetch_always (Inr \<lparr>status = 200, json = Inr JNull\<rparr>)) toString_table
             1700000000000
             ((handleMapClick 43.5 (-79.25) initial_state)\<lparr>pinTitle := ''Dock''\<rparr>))
     = (handleMapClick 43.5 (-79.25) initial_state)
         \<lparr>pinTitle := ''Dock'', isLoadingAddress := True\<rparr>
   \<and> pins (final (addPin (fetch_always (Inr \<lparr>status = 200, json = Inr JNull\<rparr>))
             toString_table 1700000000000
             ((handleMapClick 43.5 (-79.25) initial_state)\<lparr>pinTitle := ''Dock''\<rparr>)))
     = []
   \<and> showModal ((handleMapClick 43.5 (-79.25) initial_state)
         \<lparr>pinTitle := ''Dock'', isLoadingAddress := True\<rparr>)
   \<and> submit_disabled ((handleMapClick 43.5 (-79.25) initial_state)
         \<lparr>pinTitle := ''Dock'', isLoadingAddress := True\<rparr>)
   \<and> cancel_disabled ((handleMapClick 43.5 (-79.25) initial_state)
         \<lparr>pinTitle := ''Dock'', isLoadingAddress := True\<rparr>)
   \<and> map address (pins (final (addPin
         (fetch_always (Inr \<lparr>status = 200, json = Inr (JObject [])\<rparr>)) toString_table
         1700000000000
         ((handleMapClick 43.5 (-79.25) initial_state)\<lparr>pinTitle := ''Dock''\<rparr>))))
     = [Some ''<a href="https://www.google.com/maps?q=43.5,-79.25" target="_blank" rel="noopener noreferrer" style="color: #007bff; text-decoration: underline;">Address not found</a>'']\<close>
  by (simp add: addPin_def getAddress_def Let_def createAddressLink_def or_else_def
                slice_def handleMapClick_def initial_state_def fetch_always_def
                toString_table_def trim_def isWhiteSpace_def cancel_disabled_def
                submit_disabled_def)

text \<open>
  Claim C9. For every coordinate pair and every address that \<^verbatim>\<open>getAddress\<close> resolves
  (the display name of the body, or the fallback), the address stored by the create flow
  is an anchor whose \<^verbatim>\<open>href\<close> is exactly \<^verbatim>\<open>https://www.google.com/maps?q=\<close> followed
  by the printed latitude, a comma and the printed longitude of the click, with
  \<^verbatim>\<open>target="_blank"\<close> and \<^verbatim>\<open>rel="noopener noreferrer"\<close>; its text is the shortened
  address.
\<close>

theorem C9_address_links_to_map_search:
  assumes "pendingPin s = Some (x, y)" and "trim (pinTitle s) \<noteq> []"
    and "fetch (reverse_url toString x y) = Inr r" and "json r = Inr data"
    and "get_property data ''display_name'' = Inr v"
    and "or_else v (JString ''Address not found'') = JString a"
  shows \<open>map address (pins (final (addPin fetch toString now s)))
         = map address (pins s)
           @ [Some (''<a href="'' @ (''https://www.google.com/maps?q='' @ toString x @ '','' @ toString y)
                    @ ''" target="_blank" rel="noopener noreferrer" style="color: #007bff; text-decoration: underline;">''
                    @ trim (join '' '' (take 2 (split CHR '','' a)))
                    @ ''</a>'')]\<close>
proof -
  from assms have "addPin fetch toString now s =
      \<lparr>outcome = Inr (),
       final = s\<lparr>pins := pins s @
                   [\<lparr>id_pin = now, lat = x, lng = y, title = trim (pinTitle s),
                     description = trim (pinDescription s), category = pinCategory s,
                     address = Some (createAddressLink toString a x y)\<rparr>],
                 showModal := False, pendingPin := None, pinTitle := [],
                 pinDescription := [], pinCategory := restaurant,
                 isLoadingAddress := False\<rparr>,
       requests = [reverse_url toString x y]\<rparr>"
    by (rule addPin_resolved)
  then show ?thesis by (simp add: createAddressLink_shape)
qed

theorem C9_address_links_witness:
  \<open>pendingPin ((handleMapClick 43.5 (-79.25) two_pins)\<lparr>pinTitle := ''Tower''\<rparr>) = Some (43.5, -79.25)
   \<and> trim (pinTitle ((handleMapClick 43.5 (-79.25) two_pins)\<lparr>pinTitle := ''Tower''\<rparr>)) \<noteq> []
   \<and> fetch_always (Inr \<lparr>status = 200,
          json = Inr (JObject [(''display_name'', JString ''CN Tower,Toronto,Canada'')])\<rparr>)
         (reverse_url toString_table 43.5 (-79.25))
       = Inr \<lparr>status = 200,
          json = Inr (JObject [(''display_name'', JString ''CN Tower,Toronto,Canada'')])\<rparr>
   \<and> get_property (JObject [(''display_name'', JString ''CN Tower,Toronto,Canada'')])
         ''display_name''
       = Inr (Some (JString ''CN Tower,Toronto,Canada''))
   \<and> or_else (Some (JString ''CN Tower,Toronto,Canada'')) (JString ''Address not found'')
       = JString ''CN Tower,Toronto,Canada''
   \<and> map address (pins (final (addPin
         (fetch_always (Inr \<lparr>status = 200,
            json = Inr (JObject [(''display_name'', JString ''CN Tower,Toronto,Canada'')])\<rparr>))
         toString_table 1700000000000
         ((handleMapClick 43.5 (-79.25) two_pins)\<lparr>pinTitle := ''Tower''\<rparr>))))
     = [None, None,
        Some ''<a href="https://www.google.com/maps?q=43.5,-79.25" target="_blank" rel="noopener noreferrer" style="color: #007bff; text-decoration: underline;">CN Tower Toronto</a>'']\<close>
  using C9_address_links_to_map_search
          [where s = "(handleMapClick 43.5 (-79.25) two_pins)\<lparr>pinTitle := ''Tower''\<rparr>"
             and x = "43.5" and y = "-79.25" and toString = toString_table
             and fetch = "fetch_always (Inr \<lparr>status = 200,
                            json = Inr (JObject [(''display_name'', JString ''CN Tower,Toronto,Canada'')])\<rparr>)"
             and r = "\<lparr>status = 200,
                        json = Inr (JObject [(''display_name'', JString ''CN Tower,Toronto,Canada'')])\<rparr>"
             and data = "JObject [(''display_name'', JString ''CN Tower,Toronto,Canada'')]"
             and v = "Some (JString ''CN Tower,Toronto,Canada'')"
             and a = "''CN Tower,Toronto,Canada''"
             and now = 1700000000000]
  by (simp add: handleMapClick_def two_pins_def cafe_def pier_def initial_state_def
                fetch_always_def toString_table_def trim_def isWhiteSpace_def or_else_def)

subsection \<open>A geocoding request that fails\<close>

lemma ui_step_keeps_loading:
  assumes "isLoadingAddress s" and "showModal s"
  shows "isLoadingAddress (ui_step fetch toString s ev) \<and> showModal (ui_step fetch toString s ev)"
  using assms
  by (cases ev)
     (simp_all add: handleMapClick_def editPin_def deletePin_def cancel_disabled_def
                    submit_disabled_def)

lemma loading_is_permanent:
  assumes "isLoadingAddress s" and "showModal s"
  shows "isLoadingAddress (foldl (ui_step fetch toString) s evs)
       \<and> showModal (foldl (ui_step fetch toString) s evs)"
  using assms
proof (induction evs arbitrary: s)
  case Nil
  then show ?case by simp
next
  case (Cons ev evs)
  from Cons.prems have "isLoadingAddress (ui_step fetch toString s ev)"
    and "showModal (ui_step fetch toString s ev)"
    by (simp_all add: ui_step_keeps_loading)
  then show ?case using Cons.IH by simp
qed

lemma rejected_geocoding_never_recovers:
  assumes "showModal s" and "pendingPin s = Some (x, y)" and "trim (pinTitle s) \<noteq> []"
    and "fst (getAddress fetch toString x y) = Inl e"
  shows "isLoadingAddress (foldl (ui_step fetch' toString') (final (addPin fetch toString now s)) evs)
       \<and> showModal (foldl (ui_step fetch' toString') (final (addPin fetch toString now s)) evs)"
proof -
  have "final (addPin fetch toString now s) = s\<lparr>isLoadingAddress := True\<rparr>"
    using assms(2-4) by (simp add: addPin_rejected)
  moreover have "isLoadingAddress (s\<lparr>isLoadingAddress := True\<rparr>)" by simp
  moreover have "showModal (s\<lparr>isLoadingAddress := True\<rparr>)" using assms(1) by simp
  ultimately show ?thesis by (simp add: loading_is_permanent)
qed

text \<open>
  Claim C3, the code at a failing request. After a click at (43.5, -79.25) and the title
  \<^verbatim>\<open>Cafe\<close>, with a network on which \<^verbatim>\<open>fetch\<close> rejects, the promise of
  \<^verbatim>\<open>addPin\<close> is rejected, and the state it leaves behind shows the create modal with
  the loading flag set, so that Cancel and Create are both disabled; the same state is
  left behind when the request is answered with status 503 and a body that is not JSON;
  and whatever the user does from there, on any network, the loading flag stays set.
\<close>

theorem C3_transport_failure_leaves_modal_loading:
  "outcome (addPin (fetch_always (Inl FetchFailed)) toString_table 1700000000000
             ((handleMapClick 43.5 (-79.25) initial_state)\<lparr>pinTitle := ''Cafe''\<rparr>))
     = Inl FetchFailed
   \<and> final (addPin (fetch_always (Inl FetchFailed)) toString_table 1700000000000
             ((handleMapClick 43.5 (-79.25) initial_state)\<lparr>pinTitle := ''Cafe''\<rparr>))
     = (handleMapClick 43.5 (-79.25) initial_state)
         \<lparr>pinTitle := ''Cafe'', isLoadingAddress := True\<rparr>
   \<and> final (addPin (fetch_always (Inr \<lparr>status = 503, json = Inl BodyNotJson\<rparr>))
             toString_table 1700000000000
             ((handleMapClick 43.5 (-79.25) initial_state)\<lparr>pinTitle := ''Cafe''\<rparr>))
     = (handleMapClick 43.5 (-79.25) initial_state)
         \<lparr>pinTitle := ''Cafe'', isLoadingAddress := True\<rparr>
   \<and> showModal ((handleMapClick 43.5 (-79.25) initial_state)
         \<lparr>pinTitle := ''Cafe'', isLoadingAddress := True\<rparr>)
   \<and> cancel_disabled ((handleMapClick 43.5 (-79.25) initial_state)
         \<lparr>pinTitle := ''Cafe'', isLoadingAddress := True\<rparr>)
   \<and> submit_disabled ((handleMapClick 43.5 (-79.25) initial_state)
         \<lparr>pinTitle := ''Cafe'', isLoadingAddress := True\<rparr>)
   \<and> (\<forall>evs. isLoadingAddress (foldl (ui_step fetch toString)
                 ((handleMapClick 43.5 (-79.25) initial_state)
                    \<lparr>pinTitle := ''Cafe'', isLoadingAddress := True\<rparr>) evs))"
proof -
  let ?s = "(handleMapClick 43.5 (-79.25) initial_state)\<lparr>pinTitle := ''Cafe''\<rparr>"
  have run: "addPin (fetch_always (Inl FetchFailed)) toString_table 1700000000000 ?s
             = \<lparr>outcome = Inl FetchFailed, final = ?s\<lparr>isLoadingAddress := True\<rparr>,
                requests = [reverse_url toString_table 43.5 (-79.25)]\<rparr>"
    by (simp add: addPin_def getAddress_def handleMapClick_def fetch_always_def trim_def
                  isWhiteSpace_def)
  have run_http:
    "addPin (fetch_always (Inr \<lparr>status = 503, json = Inl BodyNotJson\<rparr>)) toString_table
       1700000000000 ?s
     = \<lparr>outcome = Inl BodyNotJson, final = ?s\<lparr>isLoadingAddress := True\<rparr>,
        requests = [reverse_url toString_table 43.5 (-79.25)]\<rparr>"
    by (simp add: addPin_def getAddress_def handleMapClick_def fetch_always_def trim_def
                  isWhiteSpace_def)
  have shown: "showModal (?s\<lparr>isLoadingAddress := True\<rparr>)" by (simp add: handleMapClick_def)
  have loading: "isLoadingAddress (?s\<lparr>isLoadingAddress := True\<rparr>)" by simp
  have stuck: "\<forall>evs. isLoadingAddress (foldl (ui_step fetch toString) (?s\<lparr>isLoadingAddress := True\<rparr>) evs)"
    using loading_is_permanent [OF loading shown] by blast
  show ?thesis
    using run run_http shown stuck by (simp add: cancel_disabled_def submit_disabled_def)
qed


end
